theory Spec2Isabelle
  imports Main "HOL-Library.Sublist"
begin

section \<open>Strings\<close>

text \<open>
  A Python \<open>str\<close> is a sequence of Unicode code points and \<open>len\<close> counts code points,
  so a string is modelled as a list of code points (natural numbers).  The project title
  is free text typed by the user and may hold any code point.  \<open>lit\<close> reads an ASCII
  literal of the source as such a string.
\<close>

type_synonym pystr = "nat list"

definition lit :: "string \<Rightarrow> pystr" where
  "lit s = map of_char s"

text \<open>
  \<open>str.strip()\<close> without argument removes leading and trailing whitespace, where
  whitespace is what \<open>str.isspace\<close> accepts: the code points below.
\<close>

definition isspace :: "nat \<Rightarrow> bool" where
  "isspace c \<longleftrightarrow>
     (9 \<le> c \<and> c \<le> 13) \<or> (28 \<le> c \<and> c \<le> 32) \<or> c = 133 \<or> c = 160 \<or> c = 5760 \<or>
     (8192 \<le> c \<and> c \<le> 8202) \<or> c = 8232 \<or> c = 8233 \<or> c = 8239 \<or> c = 8287 \<or> c = 12288"

definition strip :: "pystr \<Rightarrow> pystr" where
  "strip s = rev (dropWhile isspace (rev (dropWhile isspace s)))"

text \<open>\<open>s.replace(old, new)\<close> where \<open>old\<close> and \<open>new\<close> are single characters.\<close>

definition replace_char :: "nat \<Rightarrow> nat \<Rightarrow> pystr \<Rightarrow> pystr" where
  "replace_char old new s = map (\<lambda>c. if c = old then new else c) s"


section \<open>The template store\<close>

definition valid_sections :: "pystr list" where
  "valid_sections =
     [lit ''Introduction'', lit ''Problem Statement'', lit ''Objective'',
      lit ''Methodology'', lit ''Literature Review'', lit ''Future Scope'']"

text \<open>
  The six f-strings of the dictionary \<open>templates\<close> in \<open>generate_fallback_content\<close>, one
  definition per key, one line of the source per line.
\<close>

definition introduction_template :: "pystr \<Rightarrow> pystr \<Rightarrow> pystr" where
  "introduction_template domain title =
     lit ''The '' @
     title @
     lit '' project represents a significant advancement in the field of '' @
     domain @
     lit ''. This project aims to address current challenges and provide innovative solutions that can benefit both academic research and practical applications.\<newline>'' @
     lit ''\<newline>'' @
     lit ''In today's rapidly evolving technological landscape, '' @
     domain @
     lit '' continues to play a crucial role in solving complex problems. This project focuses on developing comprehensive solutions that leverage modern technologies and methodologies.\<newline>'' @
     lit ''\<newline>'' @
     lit ''The scope of this project encompasses various aspects of '' @
     domain @
     lit '', including theoretical foundations, practical implementations, and real-world applications. Through systematic research and development, this project seeks to contribute meaningful insights to the field.''"

definition problem_statement_template :: "pystr \<Rightarrow> pystr \<Rightarrow> pystr" where
  "problem_statement_template domain title =
     lit ''The current state of '' @
     domain @
     lit '' faces several challenges that require immediate attention and innovative solutions. Traditional approaches to '' @
     title @
     lit '' have limitations that hinder optimal performance and scalability.\<newline>'' @
     lit ''\<newline>'' @
     lit ''Key issues identified include:\<newline>'' @
     lit ''1. Limited efficiency in existing systems\<newline>'' @
     lit ''2. Lack of comprehensive solutions\<newline>'' @
     lit ''3. Need for improved user experience\<newline>'' @
     lit ''4. Scalability concerns in current implementations\<newline>'' @
     lit ''\<newline>'' @
     lit ''This project addresses these challenges by proposing a novel approach that combines theoretical knowledge with practical implementation strategies.''"

definition objective_template :: "pystr \<Rightarrow> pystr \<Rightarrow> pystr" where
  "objective_template domain title =
     lit ''The primary objective of this '' @
     title @
     lit '' project is to develop a comprehensive solution in the '' @
     domain @
     lit '' domain that addresses current limitations and provides enhanced functionality.\<newline>'' @
     lit ''\<newline>'' @
     lit ''Specific objectives include:\<newline>'' @
     lit ''1. To analyze existing systems and identify improvement opportunities\<newline>'' @
     lit ''2. To design and implement an efficient '' @
     domain @
     lit '' solution\<newline>'' @
     lit ''3. To evaluate performance and validate the proposed approach\<newline>'' @
     lit ''4. To provide documentation and guidelines for future development\<newline>'' @
     lit ''\<newline>'' @
     lit ''These objectives will be achieved through systematic research, careful planning, and rigorous testing procedures.''"

definition methodology_template :: "pystr \<Rightarrow> pystr \<Rightarrow> pystr" where
  "methodology_template domain title =
     lit ''The methodology for this '' @
     title @
     lit '' project follows a systematic approach that ensures comprehensive coverage of all project aspects.\<newline>'' @
     lit ''\<newline>'' @
     lit ''Phase 1: Research and Analysis\<newline>'' @
     lit ''- Literature review of existing '' @
     domain @
     lit '' solutions\<newline>'' @
     lit ''- Identification of current challenges and limitations\<newline>'' @
     lit ''- Analysis of user requirements and expectations\<newline>'' @
     lit ''\<newline>'' @
     lit ''Phase 2: Design and Development\<newline>'' @
     lit ''- System architecture design\<newline>'' @
     lit ''- Implementation of core functionalities\<newline>'' @
     lit ''- Integration of '' @
     domain @
     lit '' technologies\<newline>'' @
     lit ''\<newline>'' @
     lit ''Phase 3: Testing and Validation\<newline>'' @
     lit ''- Performance testing and optimization\<newline>'' @
     lit ''- User acceptance testing\<newline>'' @
     lit ''- Documentation and deployment''"

definition literature_review_template :: "pystr \<Rightarrow> pystr \<Rightarrow> pystr" where
  "literature_review_template domain title =
     lit ''The literature review for this '' @
     title @
     lit '' project examines current research and developments in the '' @
     domain @
     lit '' field. Various studies have been conducted to understand the theoretical foundations and practical applications.\<newline>'' @
     lit ''\<newline>'' @
     lit ''Recent research in '' @
     domain @
     lit '' has focused on improving efficiency, scalability, and user experience. Several authors have proposed different approaches to address current challenges.\<newline>'' @
     lit ''\<newline>'' @
     lit ''Key findings from the literature include:\<newline>'' @
     lit ''1. The importance of comprehensive system design\<newline>'' @
     lit ''2. The need for efficient implementation strategies\<newline>'' @
     lit ''3. The significance of user-centered approaches\<newline>'' @
     lit ''4. The value of continuous improvement and optimization\<newline>'' @
     lit ''\<newline>'' @
     lit ''This project builds upon existing knowledge while introducing novel concepts and methodologies.''"

definition future_scope_template :: "pystr \<Rightarrow> pystr \<Rightarrow> pystr" where
  "future_scope_template domain title =
     lit ''The '' @
     title @
     lit '' project provides a foundation for future developments in the '' @
     domain @
     lit '' field. Several opportunities exist for extending and improving the current solution.\<newline>'' @
     lit ''\<newline>'' @
     lit ''Potential future enhancements include:\<newline>'' @
     lit ''1. Integration with emerging technologies\<newline>'' @
     lit ''2. Expansion of functionality and features\<newline>'' @
     lit ''3. Performance optimization and scalability improvements\<newline>'' @
     lit ''4. Development of mobile and web-based interfaces\<newline>'' @
     lit ''\<newline>'' @
     lit ''The project also opens possibilities for research in related areas such as:\<newline>'' @
     lit ''- Advanced algorithms and techniques\<newline>'' @
     lit ''- Cross-platform compatibility\<newline>'' @
     lit ''- Enhanced user experience design\<newline>'' @
     lit ''- Integration with other '' @
     domain @
     lit '' systems\<newline>'' @
     lit ''\<newline>'' @
     lit ''These future developments will contribute to the continuous evolution of '' @
     domain @
     lit '' solutions.''"

text \<open>
  The dictionary itself, as an association list in the order of the source (the keys are
  distinct), and the lookup \<open>templates.get(section, default)\<close>.
\<close>

definition templates :: "pystr \<Rightarrow> pystr \<Rightarrow> (pystr \<times> pystr) list" where
  "templates domain title =
     [(lit ''Introduction'', introduction_template domain title),
      (lit ''Problem Statement'', problem_statement_template domain title),
      (lit ''Objective'', objective_template domain title),
      (lit ''Methodology'', methodology_template domain title),
      (lit ''Literature Review'', literature_review_template domain title),
      (lit ''Future Scope'', future_scope_template domain title)]"

definition generate_fallback_content :: "pystr \<Rightarrow> pystr \<Rightarrow> pystr \<Rightarrow> pystr" where
  "generate_fallback_content section domain title =
     (case map_of (templates domain title) section of
        Some text \<Rightarrow> text
      | None \<Rightarrow>
            lit ''Content for '' @
            section @
            lit '' section of '' @
            title @
            lit '' project in '' @
            domain @
            lit '' domain.'')"


section \<open>The content generator\<close>

text \<open>
  The text-generation service is outside the program.  One request may raise an exception
  (carrying its message) or return a list of candidate generations; the answer may differ
  from call to call, so the service reads and updates a world of its own.  The fixed
  request parameters (model, token limit, temperature, k, stop sequences, likelihoods) are
  constants of the call and are left to the service.
\<close>

datatype response = Raises pystr | Generations "pystr list"

type_synonym 'w cohere = "pystr \<Rightarrow> pystr \<Rightarrow> 'w \<Rightarrow> response \<times> 'w"

text \<open>
  What the program does to the outside: requests sent to the service (credential and
  prompt), exceptions logged, and error messages shown to the user.
\<close>

datatype event = CohereGenerate pystr pystr | LogException pystr | StError pystr

record 'w session =
  world :: 'w
  trace :: "event list"

definition prompt :: "pystr \<Rightarrow> pystr \<Rightarrow> pystr \<Rightarrow> pystr" where
  "prompt section domain title =
     lit ''Write a comprehensive '' @
     section @
     lit '' for a final year '' @
     domain @
     lit '' project titled '' @
     lit [CHR 0x27] @
     title @
     lit [CHR 0x27] @
     lit '' in a formal academic tone. \<newline>'' @
     lit ''\<newline>'' @
     lit ''The content should be:\<newline>'' @
     lit ''- Professional and detailed\<newline>'' @
     lit ''- Well-structured with clear paragraphs\<newline>'' @
     lit ''- Academically appropriate for a final year project\<newline>'' @
     lit ''- Approximately 200-300 words\<newline>'' @
     lit ''- Include specific technical details relevant to '' @
     domain @
     lit ''\<newline>'' @
     lit ''\<newline>'' @
     lit ''Please provide only the content for the '' @
     section @
     lit '' section, without any additional commentary.''"

text \<open>
  The body of the \<open>try\<close> block: \<open>Inl\<close> is an exception leaving the block (raised by the call,
  or the \<open>IndexError\<close> of \<open>generations[0]\<close> on an empty list), \<open>Inr\<close> the value returned.
\<close>

definition try_body ::
  "'w cohere \<Rightarrow> pystr \<Rightarrow> pystr \<Rightarrow> pystr \<Rightarrow> pystr \<Rightarrow> 'w session \<Rightarrow> (pystr + pystr) \<times> 'w session" where
  "try_body co section domain title api_key s =
     (let p = prompt section domain title;
          (r, w) = co api_key p (world s);
          s' = s\<lparr>world := w, trace := trace s @ [CohereGenerate api_key p]\<rparr>
      in case r of
           Raises e \<Rightarrow> (Inl e, s')
         | Generations [] \<Rightarrow> (Inl (lit ''list index out of range''), s')
         | Generations (g # _) \<Rightarrow>
             (let content = strip g
              in if length content < 50
                 then (Inr (generate_fallback_content section domain title), s')
                 else (Inr content, s')))"

definition generate_content ::
  "'w cohere \<Rightarrow> pystr \<Rightarrow> pystr \<Rightarrow> pystr \<Rightarrow> pystr \<Rightarrow> 'w session \<Rightarrow> pystr \<times> 'w session" where
  "generate_content co section domain title api_key s =
     (if section \<notin> set valid_sections then (lit ''Invalid section: '' @ section, s)
      else case try_body co section domain title api_key s of
             (Inr content, s') \<Rightarrow> (content, s')
           | (Inl e, s') \<Rightarrow>
               (generate_fallback_content section domain title,
                s'\<lparr>trace := trace s' @
                   [LogException (lit ''Cohere API failed.''),
                    StError ([9888, 65039] @ lit '' Error generating content: '' @ e)]\<rparr>))"


section \<open>Document assembly and download\<close>

text \<open>
  A document of the \<open>docx\<close> library, as far as the program builds it: the blocks added so
  far, in order.  \<open>add_heading(text, level)\<close> appends a heading, \<open>add_paragraph(text)\<close> a
  paragraph.
\<close>

datatype block = Heading nat pystr | Paragraph pystr

record download =
  data :: "block list"
  file_name :: pystr
  mime :: pystr

text \<open>The loop \<open>for sec in valid_sections\<close> of the full-blackbook branch.\<close>

fun generate_all_loop ::
  "'w cohere \<Rightarrow> pystr list \<Rightarrow> pystr \<Rightarrow> pystr \<Rightarrow> pystr \<Rightarrow> block list \<Rightarrow> 'w session
     \<Rightarrow> block list \<times> 'w session" where
  "generate_all_loop co [] domain project_title api_key doc s = (doc, s)"
| "generate_all_loop co (sec # secs) domain project_title api_key doc s =
     (let (content, s') = generate_content co sec domain project_title api_key s
      in generate_all_loop co secs domain project_title api_key
           (doc @ [Heading 1 sec, Paragraph content]) s')"

definition docx_mime :: pystr where
  "docx_mime = lit ''application/vnd.openxmlformats-officedocument.wordprocessingml.document''"

text \<open>
  The handler of the button "Generate Content".  It offers a download, or none when the
  credential or the title is missing.  The spinner, the success message and the on-screen
  copy of the text are rendering only and are not part of the model.
\<close>

definition on_generate ::
  "'w cohere \<Rightarrow> bool \<Rightarrow> pystr \<Rightarrow> pystr \<Rightarrow> pystr \<Rightarrow> pystr \<Rightarrow> 'w session
     \<Rightarrow> download option \<times> 'w session" where
  "on_generate co generate_all section domain project_title api_key s =
     (if api_key = [] then
        (None, s\<lparr>trace := trace s @
           [StError ([9888, 65039] @ lit '' Please enter your Cohere API key.'')]\<rparr>)
      else if project_title = [] then
        (None, s\<lparr>trace := trace s @
           [StError ([9888, 65039] @ lit '' Please enter the project title.'')]\<rparr>)
      else if generate_all then
        (let (doc, s') = generate_all_loop co valid_sections domain project_title api_key
                           [Heading 0 project_title] s
         in (Some \<lparr>data = doc,
                    file_name = replace_char (of_char CHR '' '') (of_char CHR ''_'') project_title @
                                lit ''_Blackbook.docx'',
                    mime = docx_mime\<rparr>, s'))
      else
        (let (content, s') = generate_content co section domain project_title api_key s;
             doc = [Heading 0 (project_title @ lit '' - '' @ section), Paragraph content]
         in (Some \<lparr>data = doc,
                    file_name = replace_char (of_char CHR '' '') (of_char CHR ''_'') project_title @
                                lit ''_'' @ section @ lit ''.docx'',
                    mime = docx_mime\<rparr>, s')))"


section \<open>Shapes of documents\<close>

text \<open>
  The properties of an assembled document that the specification speaks about, as
  executable checks.  \<open>section_blocks secs doc\<close>: the blocks are, for each section of \<open>secs\<close>
  in order, a level-1 heading with the section's name followed by one paragraph, and
  nothing else.  \<open>artifact_shape secs doc\<close>: one level-0 heading, then such blocks.
\<close>

fun is_heading :: "block \<Rightarrow> bool" where
  "is_heading (Heading level text) = True"
| "is_heading (Paragraph text) = False"

fun section_blocks :: "pystr list \<Rightarrow> block list \<Rightarrow> bool" where
  "section_blocks [] doc = (doc = [])"
| "section_blocks (sec # secs) (Heading level text # Paragraph body # rest) =
     (level = 1 \<and> text = sec \<and> section_blocks secs rest)"
| "section_blocks (sec # secs) doc = False"

fun artifact_shape :: "pystr list \<Rightarrow> block list \<Rightarrow> bool" where
  "artifact_shape secs (Heading level text # rest) = (level = 0 \<and> section_blocks secs rest)"
| "artifact_shape secs doc = False"

text \<open>
  The bodies that the full-blackbook loop obtains, one call of \<open>generate_content\<close> per
  section, each call in the session the previous one left.
\<close>

fun section_bodies ::
  "'w cohere \<Rightarrow> pystr list \<Rightarrow> pystr \<Rightarrow> pystr \<Rightarrow> pystr \<Rightarrow> 'w session \<Rightarrow> pystr list" where
  "section_bodies co [] domain project_title api_key s = []"
| "section_bodies co (sec # secs) domain project_title api_key s =
     (let (content, s') = generate_content co sec domain project_title api_key s
      in content # section_bodies co secs domain project_title api_key s')"


section \<open>Stand-ins for the service\<close>

text \<open>
  Deterministic services for concrete runs: one that always raises, one that returns no
  candidate, one that returns ten characters, one that returns a long text wrapped in
  whitespace, and one that fails on every other call.  Their world counts the calls.
\<close>

definition long_text :: pystr where
  "long_text = lit ''This project applies machine learning to the allocation of parking spaces.''"

definition failing_service :: "nat cohere" where
  "failing_service api_key p w = (Raises (lit ''connection refused''), Suc w)"

definition empty_service :: "nat cohere" where
  "empty_service api_key p w = (Generations [], Suc w)"

definition short_service :: "nat cohere" where
  "short_service api_key p w = (Generations [lit ''AAAAAAAAAA''], Suc w)"

definition valid_service :: "nat cohere" where
  "valid_service api_key p w =
     (Generations [lit '' \<newline>'' @ long_text @ lit ''\<newline>\<newline>'', lit ''second candidate''], Suc w)"

definition alternating_service :: "nat cohere" where
  "alternating_service api_key p w =
     (if even w then Raises (lit ''quota exhausted'') else Generations [long_text], Suc w)"

definition session0 :: "nat session" where
  "session0 = \<lparr>world = 0, trace = []\<rparr>"


section \<open>Auxiliary facts\<close>

lemma length_lit [simp]: "length (lit s) = length s"
  by (simp add: lit_def)

lemma lit_eq_iff [simp]: "lit a = lit b \<longleftrightarrow> a = b"
  unfolding lit_def by (simp add: inj_map_eq_map inj_of_char)

lemma lit_eq_Nil [simp]: "lit a = [] \<longleftrightarrow> a = []"
  by (simp add: lit_def)

lemma lit_append: "lit (a @ b) = lit a @ lit b" by (simp add: lit_def)

lemma valid_cases:
  "section \<in> set valid_sections \<longleftrightarrow>
     section = lit ''Introduction'' \<or> section = lit ''Problem Statement'' \<or>
     section = lit ''Objective'' \<or> section = lit ''Methodology'' \<or>
     section = lit ''Literature Review'' \<or> section = lit ''Future Scope''"
  by (simp add: valid_sections_def)

lemma lookup_valid:
  "map_of (templates domain title) (lit ''Introduction'') = Some (introduction_template domain title)"
  "map_of (templates domain title) (lit ''Problem Statement'') = Some (problem_statement_template domain title)"
  "map_of (templates domain title) (lit ''Objective'') = Some (objective_template domain title)"
  "map_of (templates domain title) (lit ''Methodology'') = Some (methodology_template domain title)"
  "map_of (templates domain title) (lit ''Literature Review'') = Some (literature_review_template domain title)"
  "map_of (templates domain title) (lit ''Future Scope'') = Some (future_scope_template domain title)"
  by (simp_all add: templates_def)

lemma lookup_invalid:
  "section \<notin> set valid_sections \<Longrightarrow> map_of (templates domain title) section = None"
  by (auto simp add: templates_def valid_sections_def)

lemma sublist_skip: "sublist x r \<Longrightarrow> sublist x (a @ r)"
  by (metis sublist_append)

lemma template_lengths:
  "50 \<le> length (introduction_template domain title)"
  "50 \<le> length (problem_statement_template domain title)"
  "50 \<le> length (objective_template domain title)"
  "50 \<le> length (methodology_template domain title)"
  "50 \<le> length (literature_review_template domain title)"
  "50 \<le> length (future_scope_template domain title)"
  by (simp_all add: introduction_template_def problem_statement_template_def
        objective_template_def methodology_template_def literature_review_template_def
        future_scope_template_def)

lemma template_domain:
  "sublist domain (introduction_template domain title)"
  "sublist domain (problem_statement_template domain title)"
  "sublist domain (objective_template domain title)"
  "sublist domain (methodology_template domain title)"
  "sublist domain (literature_review_template domain title)"
  "sublist domain (future_scope_template domain title)"
  unfolding introduction_template_def problem_statement_template_def
        objective_template_def methodology_template_def literature_review_template_def
        future_scope_template_def
  by (rule sublist_append_rightI | rule sublist_skip)+

lemma template_title:
  "sublist title (introduction_template domain title)"
  "sublist title (problem_statement_template domain title)"
  "sublist title (objective_template domain title)"
  "sublist title (methodology_template domain title)"
  "sublist title (literature_review_template domain title)"
  "sublist title (future_scope_template domain title)"
  unfolding introduction_template_def problem_statement_template_def
        objective_template_def methodology_template_def literature_review_template_def
        future_scope_template_def
  by (rule sublist_append_rightI | rule sublist_skip)+

lemma fallback_valid:
  "generate_fallback_content (lit ''Introduction'') domain title = introduction_template domain title"
  "generate_fallback_content (lit ''Problem Statement'') domain title = problem_statement_template domain title"
  "generate_fallback_content (lit ''Objective'') domain title = objective_template domain title"
  "generate_fallback_content (lit ''Methodology'') domain title = methodology_template domain title"
  "generate_fallback_content (lit ''Literature Review'') domain title = literature_review_template domain title"
  "generate_fallback_content (lit ''Future Scope'') domain title = future_scope_template domain title"
  by (simp_all add: generate_fallback_content_def lookup_valid)

lemma fallback_invalid:
  "section \<notin> set valid_sections \<Longrightarrow>
     generate_fallback_content section domain title =
       lit ''Content for '' @ section @ lit '' section of '' @ title @ lit '' project in '' @
       domain @ lit '' domain.''"
  by (simp add: generate_fallback_content_def lookup_invalid)

lemma fallback_length:
  "section \<in> set valid_sections \<Longrightarrow> 50 \<le> length (generate_fallback_content section domain title)"
  unfolding valid_cases by (elim disjE) (simp_all only: fallback_valid template_lengths)

lemma try_body_cases:
  assumes "co api_key (prompt section domain title) (world s) = (r, w)"
  shows "try_body co section domain title api_key s =
     (case r of
        Raises e \<Rightarrow> Inl e
      | Generations [] \<Rightarrow> Inl (lit ''list index out of range'')
      | Generations (g # gs) \<Rightarrow>
          if length (strip g) < 50 then Inr (generate_fallback_content section domain title)
          else Inr (strip g),
      s\<lparr>world := w, trace := trace s @ [CohereGenerate api_key (prompt section domain title)]\<rparr>)"
  using assms by (simp add: try_body_def Let_def split: response.split list.split)

lemma generate_content_nonempty_aux:
  "fst (generate_content co section domain title api_key s) \<noteq> []"
proof (cases "section \<in> set valid_sections")
  case False
  then show ?thesis by (simp add: generate_content_def)
next
  case True
  obtain r w where co: "co api_key (prompt section domain title) (world s) = (r, w)"
    by (cases "co api_key (prompt section domain title) (world s)")
  have "50 \<le> length (fst (generate_content co section domain title api_key s))"
    using True fallback_length [OF True, of domain title] co
    by (simp add: generate_content_def try_body_cases split: response.split list.split)
  then show ?thesis by auto
qed

lemma replace_char_length: "length (replace_char old new s) = length s"
  by (simp add: replace_char_def)

lemma replace_char_nth:
  "i < length s \<Longrightarrow> replace_char old new s ! i = (if s ! i = old then new else s ! i)"
  by (simp add: replace_char_def)

lemma replace_char_gone: "old \<noteq> new \<Longrightarrow> old \<notin> set (replace_char old new s)"
  by (auto simp add: replace_char_def)

lemma section_bodies_length:
  "length (section_bodies co secs domain title api_key s) = length secs"
proof (induction secs arbitrary: s)
  case Nil
  show ?case by simp
next
  case (Cons sec secs)
  show ?case
    by (cases "generate_content co sec domain title api_key s") (simp add: Cons.IH)
qed

lemma section_bodies_nonempty:
  "b \<in> set (section_bodies co secs domain title api_key s) \<Longrightarrow> b \<noteq> []"
proof (induction secs arbitrary: s)
  case Nil
  then show ?case by simp
next
  case (Cons sec secs)
  obtain content s' where g: "generate_content co sec domain title api_key s = (content, s')"
    by (cases "generate_content co sec domain title api_key s")
  have "content \<noteq> []"
    using generate_content_nonempty_aux [of co sec domain title api_key s] by (simp add: g)
  with Cons g show ?case by auto
qed

lemma blocks_shape:
  "length bodies = length secs \<Longrightarrow>
     section_blocks secs (concat (map2 (\<lambda>sec body. [Heading 1 sec, Paragraph body]) secs bodies))"
proof (induction secs arbitrary: bodies)
  case Nil
  then show ?case by simp
next
  case (Cons sec secs)
  then obtain b bs where "bodies = b # bs" by (cases bodies) auto
  with Cons show ?case by simp
qed

lemma blocks_headings:
  "length bodies = length secs \<Longrightarrow>
     filter is_heading (concat (map2 (\<lambda>sec body. [Heading 1 sec, Paragraph body]) secs bodies))
       = map (Heading 1) secs"
proof (induction secs arbitrary: bodies)
  case Nil
  then show ?case by simp
next
  case (Cons sec secs)
  then obtain b bs where "bodies = b # bs" by (cases bodies) auto
  with Cons show ?case by simp
qed

lemma strip_padded_long_text:
  "strip (lit '' \<newline>'' @ long_text @ lit ''\<newline>\<newline>'') = long_text"
proof -
  have front: "dropWhile isspace (lit '' \<newline>'' @ long_text @ lit ''\<newline>\<newline>'') =
                 long_text @ lit ''\<newline>\<newline>''"
    by (simp add: lit_def isspace_def long_text_def)
  have rear: "rev (dropWhile isspace (rev (long_text @ lit ''\<newline>\<newline>''))) = long_text"
    by (simp add: lit_def isspace_def long_text_def)
  show ?thesis
    unfolding strip_def front rear by (rule refl)
qed

lemma strip_short: "strip (lit ''AAAAAAAAAA'') = lit ''AAAAAAAAAA''"
  by (simp add: strip_def lit_def isspace_def)

lemma long_text_length: "length long_text = 74"
  by (simp add: long_text_def)

lemma loop_document:
  "fst (generate_all_loop co secs domain title api_key doc s) =
     doc @ concat (map2 (\<lambda>sec body. [Heading 1 sec, Paragraph body]) secs
                     (section_bodies co secs domain title api_key s))"
proof (induction secs arbitrary: doc s)
  case Nil
  show ?case by simp
next
  case (Cons sec secs)
  obtain content s' where g: "generate_content co sec domain title api_key s = (content, s')"
    by (cases "generate_content co sec domain title api_key s")
  show ?case
    using Cons.IH [of "doc @ [Heading 1 sec, Paragraph content]" s']
    by (simp add: g)
qed

lemma on_generate_all:
  assumes "api_key \<noteq> []" and "project_title \<noteq> []"
  shows "on_generate co True section domain project_title api_key s =
     (Some \<lparr>data = Heading 0 project_title #
                concat (map2 (\<lambda>sec body. [Heading 1 sec, Paragraph body]) valid_sections
                  (section_bodies co valid_sections domain project_title api_key s)),
             file_name = replace_char (of_char CHR '' '') (of_char CHR ''_'') project_title @
                         lit ''_Blackbook.docx'',
             mime = docx_mime\<rparr>,
      snd (generate_all_loop co valid_sections domain project_title api_key
             [Heading 0 project_title] s))"
  using assms by (simp add: on_generate_def split_beta loop_document)

lemma on_generate_single:
  assumes "api_key \<noteq> []" and "project_title \<noteq> []"
  shows "on_generate co False section domain project_title api_key s =
     (Some \<lparr>data = [Heading 0 (project_title @ lit '' - '' @ section),
                     Paragraph (fst (generate_content co section domain project_title api_key s))],
             file_name = replace_char (of_char CHR '' '') (of_char CHR ''_'') project_title @
                         lit ''_'' @ section @ lit ''.docx'',
             mime = docx_mime\<rparr>,
      snd (generate_content co section domain project_title api_key s))"
  using assms by (simp add: on_generate_def split_beta)

lemma on_generate_none:
  "api_key = [] \<or> project_title = [] \<Longrightarrow>
     fst (on_generate co generate_all section domain project_title api_key s) = None"
  by (auto simp add: on_generate_def)

lemma valid_sections_length: "length valid_sections = 6"
  by (simp add: valid_sections_def)

lemma strip_long_text: "strip long_text = long_text"
  by (simp add: strip_def lit_def isspace_def long_text_def)

lemma alternating_bodies:
  "section_bodies alternating_service valid_sections (lit ''AI'') (lit ''Smart Parking'')
     (lit ''key'') session0 =
   [introduction_template (lit ''AI'') (lit ''Smart Parking''), long_text,
    objective_template (lit ''AI'') (lit ''Smart Parking''), long_text,
    literature_review_template (lit ''AI'') (lit ''Smart Parking''), long_text]"
  by (simp add: valid_sections_def generate_content_def try_body_def alternating_service_def
        session0_def strip_long_text long_text_length fallback_valid)


section \<open>The content generator: properties\<close>

text \<open>
  Claim C3.  For a section that is not one of the six recognized ones, whatever the
  domain, title and credential, \<open>generate_content\<close> returns the string
  "Invalid section: " followed by the section, and the session is left as it was: no
  request reaches the service, nothing is logged and nothing is shown.
\<close>

theorem generate_content_invalid_section:
  assumes "section \<notin> set valid_sections"
  shows "generate_content co section domain title api_key s =
           (lit ''Invalid section: '' @ section, s)"
  using assms by (simp add: generate_content_def)

theorem generate_content_invalid_section_witness:
  "lit ''NotASection'' \<notin> set valid_sections \<and>
   generate_content valid_service (lit ''NotASection'') (lit ''AI'') (lit ''X'') (lit ''key'') session0 =
     (lit ''Invalid section: NotASection'', session0)"
proof -
  have h: "lit ''NotASection'' \<notin> set valid_sections"
    by (simp add: valid_sections_def)
  have "lit ''Invalid section: '' @ lit ''NotASection'' = lit ''Invalid section: NotASection''"
    by (simp add: lit_def)
  with generate_content_invalid_section [OF h, of valid_service "lit ''AI''" "lit ''X''" "lit ''key''" session0] h
  show ?thesis by simp
qed

text \<open>
  Claim C4.  Whatever the section, domain, title and credential, and whatever the service
  does (raise, return no candidate, a short one or a long one), \<open>generate_content\<close>
  returns a non-empty string.  The model is a total function whose every exception of the
  \<open>try\<close> block is a branch handled by the \<open>except\<close> clause, so no exception leaves it.
\<close>

theorem generate_content_nonempty:
  "fst (generate_content co section domain title api_key s) \<noteq> []"
  by (rule generate_content_nonempty_aux)

text \<open>
  Claim C1.  For a recognized section and any domain and title: when the service answers
  with a list of candidates whose first one, stripped of surrounding whitespace, has at
  least 50 characters, \<open>generate_content\<close> returns exactly that stripped text.
\<close>

theorem generate_content_returns_trimmed:
  assumes "section \<in> set valid_sections"
    and "co api_key (prompt section domain title) (world s) = (Generations (g # gs), w)"
    and "50 \<le> length (strip g)"
  shows "fst (generate_content co section domain title api_key s) = strip g"
  using assms by (simp add: generate_content_def try_body_cases)

theorem generate_content_returns_trimmed_witness:
  "lit ''Introduction'' \<in> set valid_sections \<and>
   valid_service (lit ''key'') (prompt (lit ''Introduction'') (lit ''AI'') (lit ''Smart Parking''))
       (world session0) =
     (Generations [lit '' \<newline>'' @ long_text @ lit ''\<newline>\<newline>'', lit ''second candidate''], 1) \<and>
   50 \<le> length (strip (lit '' \<newline>'' @ long_text @ lit ''\<newline>\<newline>'')) \<and>
   fst (generate_content valid_service (lit ''Introduction'') (lit ''AI'') (lit ''Smart Parking'')
          (lit ''key'') session0) = long_text"
proof -
  have h1: "lit ''Introduction'' \<in> set valid_sections"
    by (simp add: valid_sections_def)
  have h2: "valid_service (lit ''key'')
       (prompt (lit ''Introduction'') (lit ''AI'') (lit ''Smart Parking'')) (world session0) =
     (Generations ((lit '' \<newline>'' @ long_text @ lit ''\<newline>\<newline>'') # [lit ''second candidate'']), 1)"
    by (simp add: valid_service_def session0_def)
  have h3: "50 \<le> length (strip (lit '' \<newline>'' @ long_text @ lit ''\<newline>\<newline>''))"
    by (simp add: strip_padded_long_text long_text_length)
  from generate_content_returns_trimmed
         [of "lit ''Introduction''" valid_service "lit ''key''" "lit ''AI''" "lit ''Smart Parking''"
             session0, OF h1 h2 h3] h1 h2 h3
  show ?thesis by (simp add: strip_padded_long_text)
qed

text \<open>
  Claim C2.  For a recognized section and any domain and title: when the call raises an
  exception, or returns no candidate (so that taking the first one raises), or the first
  candidate stripped of whitespace has fewer than 50 characters (the empty string
  included), \<open>generate_content\<close> returns exactly
  \<open>generate_fallback_content section domain title\<close>.  The exceptions of the model are
  those the clause \<open>except Exception\<close> catches.
\<close>

theorem generate_content_falls_back:
  assumes "section \<in> set valid_sections"
    and "co api_key (prompt section domain title) (world s) = (r, w)"
    and "(\<exists>e. r = Raises e) \<or> r = Generations [] \<or>
         (\<exists>g gs. r = Generations (g # gs) \<and> length (strip g) < 50)"
  shows "fst (generate_content co section domain title api_key s) =
           generate_fallback_content section domain title"
  using assms by (auto simp add: generate_content_def try_body_cases)

theorem generate_content_falls_back_witness:
  "fst (generate_content failing_service (lit ''Introduction'') (lit ''AI'') (lit ''Smart Parking'')
          (lit ''key'') session0) =
     introduction_template (lit ''AI'') (lit ''Smart Parking'') \<and>
   fst (generate_content short_service (lit ''Objective'') (lit ''IoT'') (lit ''X'')
          (lit ''key'') session0) =
     objective_template (lit ''IoT'') (lit ''X'') \<and>
   fst (generate_content empty_service (lit ''Future Scope'') (lit ''Web'') (lit ''X'')
          (lit ''key'') session0) =
     future_scope_template (lit ''Web'') (lit ''X'')"
proof -
  have v: "lit ''Introduction'' \<in> set valid_sections" "lit ''Objective'' \<in> set valid_sections"
    "lit ''Future Scope'' \<in> set valid_sections"
    by (simp_all add: valid_sections_def)
  have c1: "failing_service (lit ''key'')
       (prompt (lit ''Introduction'') (lit ''AI'') (lit ''Smart Parking'')) (world session0) =
       (Raises (lit ''connection refused''), 1)"
    by (simp add: failing_service_def session0_def)
  have c2: "short_service (lit ''key'')
       (prompt (lit ''Objective'') (lit ''IoT'') (lit ''X'')) (world session0) =
       (Generations [lit ''AAAAAAAAAA''], 1)"
    by (simp add: short_service_def session0_def)
  have c3: "empty_service (lit ''key'')
       (prompt (lit ''Future Scope'') (lit ''Web'') (lit ''X'')) (world session0) =
       (Generations [], 1)"
    by (simp add: empty_service_def session0_def)
  have d1: "(\<exists>e. Raises (lit ''connection refused'') = Raises e) \<or>
        Raises (lit ''connection refused'') = Generations [] \<or>
        (\<exists>g gs. Raises (lit ''connection refused'') = Generations (g # gs) \<and> length (strip g) < 50)"
    by simp
  have d2: "(\<exists>e. Generations [lit ''AAAAAAAAAA''] = Raises e) \<or>
        Generations [lit ''AAAAAAAAAA''] = Generations [] \<or>
        (\<exists>g gs. Generations [lit ''AAAAAAAAAA''] = Generations (g # gs) \<and> length (strip g) < 50)"
    by (simp add: strip_short)
  have d3: "(\<exists>e. Generations [] = Raises e) \<or> Generations [] = Generations [] \<or>
        (\<exists>g gs. Generations [] = Generations (g # gs) \<and> length (strip g) < 50)"
    by simp
  from generate_content_falls_back
         [of "lit ''Introduction''" failing_service "lit ''key''" "lit ''AI''" "lit ''Smart Parking''"
             session0, OF v(1) c1 d1]
       generate_content_falls_back
         [of "lit ''Objective''" short_service "lit ''key''" "lit ''IoT''" "lit ''X''"
             session0, OF v(2) c2 d2]
       generate_content_falls_back
         [of "lit ''Future Scope''" empty_service "lit ''key''" "lit ''Web''" "lit ''X''"
             session0, OF v(3) c3 d3]
  show ?thesis by (simp add: fallback_valid)
qed


section \<open>The template store: properties\<close>

text \<open>
  Claim C5.  For a recognized section and any domain and title,
  \<open>generate_fallback_content\<close> returns a non-empty text in which the domain and the title
  occur as they were given, as contiguous substrings, with nothing escaped.  It is a
  function of its three arguments alone, so equal arguments give equal texts.
\<close>

theorem fallback_valid_section:
  assumes "section \<in> set valid_sections"
  shows "generate_fallback_content section domain title \<noteq> [] \<and>
         sublist domain (generate_fallback_content section domain title) \<and>
         sublist title (generate_fallback_content section domain title)"
proof -
  have "50 \<le> length (generate_fallback_content section domain title)"
    using assms by (rule fallback_length)
  then have "generate_fallback_content section domain title \<noteq> []" by auto
  moreover have "sublist domain (generate_fallback_content section domain title)"
    using assms unfolding valid_cases by (elim disjE) (simp_all only: fallback_valid template_domain)
  moreover have "sublist title (generate_fallback_content section domain title)"
    using assms unfolding valid_cases by (elim disjE) (simp_all only: fallback_valid template_title)
  ultimately show ?thesis by simp
qed

theorem fallback_valid_section_witness:
  "lit ''Methodology'' \<in> set valid_sections \<and>
   generate_fallback_content (lit ''Methodology'') (lit ''<b>IoT</b>'') (lit ''{title} & Co'') \<noteq> [] \<and>
   sublist (lit ''<b>IoT</b>'')
     (generate_fallback_content (lit ''Methodology'') (lit ''<b>IoT</b>'') (lit ''{title} & Co'')) \<and>
   sublist (lit ''{title} & Co'')
     (generate_fallback_content (lit ''Methodology'') (lit ''<b>IoT</b>'') (lit ''{title} & Co''))"
proof -
  have h: "lit ''Methodology'' \<in> set valid_sections"
    by (simp add: valid_sections_def)
  from fallback_valid_section [OF h, of "lit ''<b>IoT</b>''" "lit ''{title} & Co''"] h
  show ?thesis by simp
qed

text \<open>
  Claim C6.  For a section outside the recognized set and any domain and title,
  \<open>generate_fallback_content\<close> returns the generic placeholder
  "Content for <section> section of <title> project in <domain> domain.", which is not
  empty and names the section, the title and the domain.
\<close>

theorem fallback_unknown_section:
  assumes "section \<notin> set valid_sections"
  shows "generate_fallback_content section domain title =
           lit ''Content for '' @ section @ lit '' section of '' @ title @
           lit '' project in '' @ domain @ lit '' domain.'' \<and>
         generate_fallback_content section domain title \<noteq> [] \<and>
         sublist section (generate_fallback_content section domain title) \<and>
         sublist title (generate_fallback_content section domain title) \<and>
         sublist domain (generate_fallback_content section domain title)"
proof -
  let ?d = "lit ''Content for '' @ section @ lit '' section of '' @ title @
           lit '' project in '' @ domain @ lit '' domain.''"
  have eq: "generate_fallback_content section domain title = ?d"
    using assms by (rule fallback_invalid)
  have "?d \<noteq> []" by (simp add: lit_def)
  moreover have "sublist section ?d" by (rule sublist_append_rightI | rule sublist_skip)+
  moreover have "sublist title ?d" by (rule sublist_append_rightI | rule sublist_skip)+
  moreover have "sublist domain ?d" by (rule sublist_append_rightI | rule sublist_skip)+
  ultimately show ?thesis unfolding eq by simp
qed

theorem fallback_unknown_section_witness:
  "lit ''Abstract'' \<notin> set valid_sections \<and>
   generate_fallback_content (lit ''Abstract'') (lit ''AI'') (lit ''Smart Parking'') =
     lit ''Content for Abstract section of Smart Parking project in AI domain.''"
proof -
  have h: "lit ''Abstract'' \<notin> set valid_sections"
    by (simp add: valid_sections_def)
  have e: "lit ''Content for '' @ lit ''Abstract'' @ lit '' section of '' @ lit ''Smart Parking'' @
           lit '' project in '' @ lit ''AI'' @ lit '' domain.'' =
           lit ''Content for Abstract section of Smart Parking project in AI domain.''"
    by (simp add: lit_def)
  from fallback_unknown_section [OF h, of "lit ''AI''" "lit ''Smart Parking''"] h e
  show ?thesis by simp
qed




section \<open>The assembled document and its file name\<close>

text \<open>
  Claim C7.  With "generate all" ticked, a credential and a title present, and whatever
  the service does in each of the six calls, the document holds exactly seven headings:
  the level-0 heading with the project title, then the level-1 headings Introduction,
  Problem Statement, Objective, Methodology, Literature Review, Future Scope in this
  order, each followed by the paragraph with the body that \<open>generate_content\<close> returned
  for that section.
\<close>

theorem full_blackbook_document:
  assumes "api_key \<noteq> []" and "project_title \<noteq> []"
  shows "\<exists>d s'. on_generate co True section domain project_title api_key s = (Some d, s') \<and>
           filter is_heading (data d) =
             [Heading 0 project_title,
              Heading 1 (lit ''Introduction''), Heading 1 (lit ''Problem Statement''),
              Heading 1 (lit ''Objective''), Heading 1 (lit ''Methodology''),
              Heading 1 (lit ''Literature Review''), Heading 1 (lit ''Future Scope'')] \<and>
           length (filter is_heading (data d)) = 7 \<and>
           data d = Heading 0 project_title #
             concat (map2 (\<lambda>sec body. [Heading 1 sec, Paragraph body])
               [lit ''Introduction'', lit ''Problem Statement'', lit ''Objective'',
                lit ''Methodology'', lit ''Literature Review'', lit ''Future Scope'']
               (section_bodies co valid_sections domain project_title api_key s)) \<and>
           length (section_bodies co valid_sections domain project_title api_key s) = 6"
proof -
  let ?bodies = "section_bodies co valid_sections domain project_title api_key s"
  let ?doc = "Heading 0 project_title #
          concat (map2 (\<lambda>sec body. [Heading 1 sec, Paragraph body]) valid_sections ?bodies)"
  have len: "length ?bodies = length valid_sections"
    by (rule section_bodies_length)
  have "filter is_heading (concat (map2 (\<lambda>sec body. [Heading 1 sec, Paragraph body])
          valid_sections ?bodies)) = map (Heading 1) valid_sections"
    using len by (rule blocks_headings)
  then have heads: "filter is_heading ?doc = Heading 0 project_title # map (Heading 1) valid_sections"
    by simp
  have h1: "filter is_heading ?doc =
             [Heading 0 project_title,
              Heading 1 (lit ''Introduction''), Heading 1 (lit ''Problem Statement''),
              Heading 1 (lit ''Objective''), Heading 1 (lit ''Methodology''),
              Heading 1 (lit ''Literature Review''), Heading 1 (lit ''Future Scope'')]"
    unfolding heads by (simp add: valid_sections_def)
  have h2: "length (filter is_heading ?doc) = 7"
    unfolding h1 by simp
  have h3: "?doc = Heading 0 project_title #
             concat (map2 (\<lambda>sec body. [Heading 1 sec, Paragraph body])
               [lit ''Introduction'', lit ''Problem Statement'', lit ''Objective'',
                lit ''Methodology'', lit ''Literature Review'', lit ''Future Scope''] ?bodies)"
    by (simp only: valid_sections_def)
  have h4: "length ?bodies = 6"
    using len by (simp add: valid_sections_length)
  show ?thesis
    unfolding on_generate_all [OF assms]
    using h1 h2 h3 h4 by (intro exI conjI) (rule refl, simp_all only: download.simps)
qed

theorem full_blackbook_document_witness:
  "lit ''key'' \<noteq> [] \<and> lit ''Smart Parking'' \<noteq> [] \<and>
   (\<exists>d s'. on_generate alternating_service True (lit ''Objective'') (lit ''AI'')
              (lit ''Smart Parking'') (lit ''key'') session0 = (Some d, s') \<and>
      filter is_heading (data d) =
        [Heading 0 (lit ''Smart Parking''),
         Heading 1 (lit ''Introduction''), Heading 1 (lit ''Problem Statement''),
         Heading 1 (lit ''Objective''), Heading 1 (lit ''Methodology''),
         Heading 1 (lit ''Literature Review''), Heading 1 (lit ''Future Scope'')] \<and>
      data d =
        [Heading 0 (lit ''Smart Parking''),
         Heading 1 (lit ''Introduction''),
         Paragraph (introduction_template (lit ''AI'') (lit ''Smart Parking'')),
         Heading 1 (lit ''Problem Statement''), Paragraph long_text,
         Heading 1 (lit ''Objective''),
         Paragraph (objective_template (lit ''AI'') (lit ''Smart Parking'')),
         Heading 1 (lit ''Methodology''), Paragraph long_text,
         Heading 1 (lit ''Literature Review''),
         Paragraph (literature_review_template (lit ''AI'') (lit ''Smart Parking'')),
         Heading 1 (lit ''Future Scope''), Paragraph long_text])"
proof -
  have h1: "lit ''key'' \<noteq> []" by simp
  have h2: "lit ''Smart Parking'' \<noteq> []" by simp
  from full_blackbook_document
         [OF h1 h2, of alternating_service "lit ''Objective''" "lit ''AI''" session0]
  obtain d s' where
    run: "on_generate alternating_service True (lit ''Objective'') (lit ''AI'')
            (lit ''Smart Parking'') (lit ''key'') session0 = (Some d, s')"
    and heads: "filter is_heading (data d) =
        [Heading 0 (lit ''Smart Parking''),
         Heading 1 (lit ''Introduction''), Heading 1 (lit ''Problem Statement''),
         Heading 1 (lit ''Objective''), Heading 1 (lit ''Methodology''),
         Heading 1 (lit ''Literature Review''), Heading 1 (lit ''Future Scope'')]"
    and doc: "data d = Heading 0 (lit ''Smart Parking'') #
             concat (map2 (\<lambda>sec body. [Heading 1 sec, Paragraph body])
               [lit ''Introduction'', lit ''Problem Statement'', lit ''Objective'',
                lit ''Methodology'', lit ''Literature Review'', lit ''Future Scope'']
               (section_bodies alternating_service valid_sections (lit ''AI'')
                  (lit ''Smart Parking'') (lit ''key'') session0))"
    by blast
  have "data d =
        [Heading 0 (lit ''Smart Parking''),
         Heading 1 (lit ''Introduction''),
         Paragraph (introduction_template (lit ''AI'') (lit ''Smart Parking'')),
         Heading 1 (lit ''Problem Statement''), Paragraph long_text,
         Heading 1 (lit ''Objective''),
         Paragraph (objective_template (lit ''AI'') (lit ''Smart Parking'')),
         Heading 1 (lit ''Methodology''), Paragraph long_text,
         Heading 1 (lit ''Literature Review''),
         Paragraph (literature_review_template (lit ''AI'') (lit ''Smart Parking'')),
         Heading 1 (lit ''Future Scope''), Paragraph long_text]"
    unfolding doc alternating_bodies by simp
  with run heads h1 h2 show ?thesis by blast
qed

text \<open>
  Claim C8, amended.  Every download holds one level-0 heading first.  In the document of
  all sections that heading is the project title, and it is followed, for each of the six
  sections in order, by a level-1 heading with the section's name and one paragraph with
  the body generated for it, and by nothing else.  In the document of a single section
  the heading is "<title> - <section>" and is followed by one paragraph with the body;
  that document is these two blocks, so it has no level-1 heading.
\<close>

theorem output_artifact_shape:
  assumes "api_key \<noteq> []" and "project_title \<noteq> []"
  shows "\<exists>d s'. on_generate co generate_all section domain project_title api_key s = (Some d, s') \<and>
           (if generate_all then
              data d = Heading 0 project_title #
                concat (map2 (\<lambda>sec body. [Heading 1 sec, Paragraph body]) valid_sections
                  (section_bodies co valid_sections domain project_title api_key s)) \<and>
              section_blocks valid_sections (tl (data d)) \<and>
              length (section_bodies co valid_sections domain project_title api_key s) = 6
            else data d =
                   [Heading 0 (project_title @ lit '' - '' @ section),
                    Paragraph (fst (generate_content co section domain project_title api_key s))])"
proof (cases generate_all)
  case True
  have len: "length (section_bodies co valid_sections domain project_title api_key s) =
          length valid_sections"
    by (rule section_bodies_length)
  then have "section_blocks valid_sections
          (concat (map2 (\<lambda>sec body. [Heading 1 sec, Paragraph body]) valid_sections
             (section_bodies co valid_sections domain project_title api_key s)))"
    by (rule blocks_shape)
  then show ?thesis
    using True len by (simp add: on_generate_all [OF assms] valid_sections_length)
next
  case False
  then show ?thesis
    by (simp add: on_generate_single [OF assms])
qed

theorem output_artifact_shape_witness:
  "lit ''key'' \<noteq> [] \<and> lit ''Smart Parking'' \<noteq> [] \<and>
   (\<exists>d s'. on_generate failing_service False (lit ''Introduction'') (lit ''AI'')
              (lit ''Smart Parking'') (lit ''key'') session0 = (Some d, s') \<and>
      data d = [Heading 0 (lit ''Smart Parking - Introduction''),
                Paragraph (introduction_template (lit ''AI'') (lit ''Smart Parking''))]) \<and>
   (\<exists>d s'. on_generate alternating_service True (lit ''Introduction'') (lit ''AI'')
              (lit ''Smart Parking'') (lit ''key'') session0 = (Some d, s') \<and>
      data d =
        [Heading 0 (lit ''Smart Parking''),
         Heading 1 (lit ''Introduction''),
         Paragraph (introduction_template (lit ''AI'') (lit ''Smart Parking'')),
         Heading 1 (lit ''Problem Statement''), Paragraph long_text,
         Heading 1 (lit ''Objective''),
         Paragraph (objective_template (lit ''AI'') (lit ''Smart Parking'')),
         Heading 1 (lit ''Methodology''), Paragraph long_text,
         Heading 1 (lit ''Literature Review''),
         Paragraph (literature_review_template (lit ''AI'') (lit ''Smart Parking'')),
         Heading 1 (lit ''Future Scope''), Paragraph long_text] \<and>
      section_blocks valid_sections (tl (data d)))"
proof -
  have h1: "lit ''key'' \<noteq> []" by simp
  have h2: "lit ''Smart Parking'' \<noteq> []" by simp
  have t: "lit ''Smart Parking'' @ lit '' - '' @ lit ''Introduction'' =
           lit ''Smart Parking - Introduction''"
    by (simp add: lit_def)
  have c: "fst (generate_content failing_service (lit ''Introduction'') (lit ''AI'')
             (lit ''Smart Parking'') (lit ''key'') session0) =
           introduction_template (lit ''AI'') (lit ''Smart Parking'')"
    by (simp add: generate_content_def try_body_def failing_service_def session0_def
          valid_sections_def fallback_valid)
  from output_artifact_shape
         [OF h1 h2, of failing_service False "lit ''Introduction''" "lit ''AI''" session0]
  obtain d1 s1 where
    run1: "on_generate failing_service False (lit ''Introduction'') (lit ''AI'')
             (lit ''Smart Parking'') (lit ''key'') session0 = (Some d1, s1)"
    and doc1: "data d1 = [Heading 0 (lit ''Smart Parking - Introduction''),
                Paragraph (introduction_template (lit ''AI'') (lit ''Smart Parking''))]"
    unfolding t c by auto
  from output_artifact_shape
         [OF h1 h2, of alternating_service True "lit ''Introduction''" "lit ''AI''" session0]
  obtain d2 s2 where
    run2: "on_generate alternating_service True (lit ''Introduction'') (lit ''AI'')
             (lit ''Smart Parking'') (lit ''key'') session0 = (Some d2, s2)"
    and doc2: "data d2 = Heading 0 (lit ''Smart Parking'') #
                concat (map2 (\<lambda>sec body. [Heading 1 sec, Paragraph body]) valid_sections
                  (section_bodies alternating_service valid_sections (lit ''AI'')
                     (lit ''Smart Parking'') (lit ''key'') session0))"
    and shape2: "section_blocks valid_sections (tl (data d2))"
    by auto
  have "data d2 =
        [Heading 0 (lit ''Smart Parking''),
         Heading 1 (lit ''Introduction''),
         Paragraph (introduction_template (lit ''AI'') (lit ''Smart Parking'')),
         Heading 1 (lit ''Problem Statement''), Paragraph long_text,
         Heading 1 (lit ''Objective''),
         Paragraph (objective_template (lit ''AI'') (lit ''Smart Parking'')),
         Heading 1 (lit ''Methodology''), Paragraph long_text,
         Heading 1 (lit ''Literature Review''),
         Paragraph (literature_review_template (lit ''AI'') (lit ''Smart Parking'')),
         Heading 1 (lit ''Future Scope''), Paragraph long_text]"
    unfolding doc2 alternating_bodies by (simp add: valid_sections_def)
  with run1 doc1 run2 shape2 h1 h2 show ?thesis by blast
qed

text \<open>
  The statement as written, a level-1 heading for each requested section also in the
  single-section document, fails: for the section Introduction the document is a level-0
  heading and a paragraph.
\<close>

theorem single_section_artifact_counterexample:
  "fst (on_generate failing_service False (lit ''Introduction'') (lit ''AI'')
          (lit ''Smart Parking'') (lit ''key'') session0) \<noteq> None \<and>
   \<not> artifact_shape [lit ''Introduction'']
       (data (the (fst (on_generate failing_service False (lit ''Introduction'') (lit ''AI'')
          (lit ''Smart Parking'') (lit ''key'') session0))))"
proof -
  have h1: "lit ''key'' \<noteq> []" by simp
  have h2: "lit ''Smart Parking'' \<noteq> []" by simp
  show ?thesis
    unfolding on_generate_single [OF h1 h2] by simp
qed

text \<open>
  Claim C9.  The file name of the download is the project title with every space replaced
  by an underscore (same length, every other character kept, no space left), then an
  underscore, then the section name for a single section or "Blackbook" for all
  sections, then ".docx".  The section name is inserted as it is.
\<close>

theorem download_file_name:
  assumes "api_key \<noteq> []" and "project_title \<noteq> []"
  shows "\<exists>d s' sanitized.
           on_generate co generate_all section domain project_title api_key s = (Some d, s') \<and>
           file_name d =
             sanitized @ lit ''_'' @ (if generate_all then lit ''Blackbook'' else section) @
             lit ''.docx'' \<and>
           length sanitized = length project_title \<and>
           (\<forall>i<length project_title.
              sanitized ! i =
                (if project_title ! i = of_char CHR '' '' then of_char CHR ''_''
                 else project_title ! i)) \<and>
           of_char CHR '' '' \<notin> set sanitized"
proof -
  let ?t = "replace_char (of_char CHR '' '') (of_char CHR ''_'') project_title"
  have a: "length ?t = length project_title"
    by (rule replace_char_length)
  have b: "\<forall>i<length project_title.
              ?t ! i = (if project_title ! i = of_char CHR '' '' then of_char CHR ''_''
                        else project_title ! i)"
    by (simp add: replace_char_nth)
  have "(of_char CHR '' '' :: nat) \<noteq> of_char CHR ''_''" by simp
  then have c: "of_char CHR '' '' \<notin> set ?t"
    by (rule replace_char_gone)
  have e: "lit ''_Blackbook.docx'' = lit ''_'' @ lit ''Blackbook'' @ lit ''.docx''"
    by (simp add: lit_def)
  show ?thesis
  proof (cases generate_all)
    case True
    let ?d = "\<lparr>data = Heading 0 project_title #
                concat (map2 (\<lambda>sec body. [Heading 1 sec, Paragraph body]) valid_sections
                  (section_bodies co valid_sections domain project_title api_key s)),
             file_name = ?t @ lit ''_Blackbook.docx'', mime = docx_mime\<rparr>"
    have run: "on_generate co generate_all section domain project_title api_key s =
        (Some ?d, snd (generate_all_loop co valid_sections domain project_title api_key
             [Heading 0 project_title] s))"
      using True on_generate_all [OF assms, of co "section" domain s] by simp
    have name: "file_name ?d =
          ?t @ lit ''_'' @ (if generate_all then lit ''Blackbook'' else section) @ lit ''.docx''"
      using True by (simp only: download.simps e if_True)
    show ?thesis
      by (intro exI conjI) (rule run, rule name, rule a, rule b, rule c)
  next
    case False
    let ?d = "\<lparr>data = [Heading 0 (project_title @ lit '' - '' @ section),
                     Paragraph (fst (generate_content co section domain project_title api_key s))],
             file_name = ?t @ lit ''_'' @ section @ lit ''.docx'', mime = docx_mime\<rparr>"
    have run: "on_generate co generate_all section domain project_title api_key s =
        (Some ?d, snd (generate_content co section domain project_title api_key s))"
      using False on_generate_single [OF assms, of co "section" domain s] by simp
    have name: "file_name ?d =
          ?t @ lit ''_'' @ (if generate_all then lit ''Blackbook'' else section) @ lit ''.docx''"
      using False by (simp only: download.simps if_False)
    show ?thesis
      by (intro exI conjI) (rule run, rule name, rule a, rule b, rule c)
  qed
qed

theorem download_file_name_witness:
  "lit ''key'' \<noteq> [] \<and> lit ''Smart Parking App'' \<noteq> [] \<and>
   (\<exists>d s'. on_generate failing_service False (lit ''Problem Statement'') (lit ''AI'')
              (lit ''Smart Parking App'') (lit ''key'') session0 = (Some d, s') \<and>
      file_name d = lit ''Smart_Parking_App_Problem Statement.docx'') \<and>
   (\<exists>d s'. on_generate failing_service True (lit ''Problem Statement'') (lit ''AI'')
              (lit ''Smart Parking App'') (lit ''key'') session0 = (Some d, s') \<and>
      file_name d = lit ''Smart_Parking_App_Blackbook.docx'')"
proof -
  have h1: "lit ''key'' \<noteq> []" by simp
  have h2: "lit ''Smart Parking App'' \<noteq> []" by simp
  have same: "\<And>a b :: pystr. length a = length b \<Longrightarrow>
      \<forall>i<length b. a ! i = (if b ! i = of_char CHR '' '' then of_char CHR ''_'' else b ! i) \<Longrightarrow>
      a = replace_char (of_char CHR '' '') (of_char CHR ''_'') b"
    by (rule nth_equalityI) (simp_all add: replace_char_def)
  have r: "replace_char (of_char CHR '' '') (of_char CHR ''_'') (lit ''Smart Parking App'') =
           lit ''Smart_Parking_App''"
    by (simp add: replace_char_def lit_def)
  have n1: "lit ''Smart_Parking_App'' @ lit ''_'' @ lit ''Problem Statement'' @ lit ''.docx'' =
            lit ''Smart_Parking_App_Problem Statement.docx''"
    by (simp add: lit_def)
  have n2: "lit ''Smart_Parking_App'' @ lit ''_'' @ lit ''Blackbook'' @ lit ''.docx'' =
            lit ''Smart_Parking_App_Blackbook.docx''"
    by (simp add: lit_def)
  from download_file_name
         [OF h1 h2, of failing_service False "lit ''Problem Statement''" "lit ''AI''" session0]
  obtain d1 s1 t1 where
    run1: "on_generate failing_service False (lit ''Problem Statement'') (lit ''AI'')
             (lit ''Smart Parking App'') (lit ''key'') session0 = (Some d1, s1)"
    and f1: "file_name d1 = t1 @ lit ''_'' @ lit ''Problem Statement'' @ lit ''.docx''"
    and l1: "length t1 = length (lit ''Smart Parking App'')"
    and p1: "\<forall>i<length (lit ''Smart Parking App'').
               t1 ! i = (if lit ''Smart Parking App'' ! i = of_char CHR '' '' then of_char CHR ''_''
                         else lit ''Smart Parking App'' ! i)"
    by auto
  from download_file_name
         [OF h1 h2, of failing_service True "lit ''Problem Statement''" "lit ''AI''" session0]
  obtain d2 s2 t2 where
    run2: "on_generate failing_service True (lit ''Problem Statement'') (lit ''AI'')
             (lit ''Smart Parking App'') (lit ''key'') session0 = (Some d2, s2)"
    and f2: "file_name d2 = t2 @ lit ''_'' @ lit ''Blackbook'' @ lit ''.docx''"
    and l2: "length t2 = length (lit ''Smart Parking App'')"
    and p2: "\<forall>i<length (lit ''Smart Parking App'').
               t2 ! i = (if lit ''Smart Parking App'' ! i = of_char CHR '' '' then of_char CHR ''_''
                         else lit ''Smart Parking App'' ! i)"
    by auto
  have "t1 = lit ''Smart_Parking_App''"
    using same [OF l1 p1] by (simp only: r)
  then have g1: "file_name d1 = lit ''Smart_Parking_App_Problem Statement.docx''"
    using f1 by (simp only: n1)
  have "t2 = lit ''Smart_Parking_App''"
    using same [OF l2 p2] by (simp only: r)
  then have g2: "file_name d2 = lit ''Smart_Parking_App_Blackbook.docx''"
    using f2 by (simp only: n2)
  from run1 g1 run2 g2 h1 h2 show ?thesis by blast
qed

end
